theory Spec2Isabelle
  imports Main
begin

section \<open>The image upload endpoint (supabase/functions/upload-image/index.ts)\<close>

text \<open>
  The endpoint is one request handler. It reads the request (its method, the
  \<open>x-session-token\<close> header, a multipart form), asks three collaborators (the session
  service, the relational store, the object store) and answers with a status, headers
  and a JSON body. The model passes the stores explicitly as a \<open>world\<close> and returns
  the world after the request, together with the list of collaborator calls made, in
  order. What the collaborators answer in one invocation is given by an \<open>env\<close>.
\<close>

subsection \<open>Requests\<close>

text \<open>A \<open>File\<close> of the form: its name, its declared size and content type, its bytes.\<close>

record upload_file =
  file_name :: string
  file_size :: nat
  file_type :: string
  file_content :: string

text \<open>
  \<open>formData.get\<close> yields a \<open>File\<close>, a string, or \<open>null\<close> (here \<open>None\<close>). The source
  casts the three text fields to \<open>string\<close>; the cast does nothing at run time, and a file
  part sent under one of those names behaves in every use the handler makes of it
  (truthiness, \<open>includes\<close>, \<open>===\<close>, the template literal, the query parameter) as the
  string it converts to, so the text fields are strings here.
\<close>

datatype form_entry = FileEntry upload_file | TextEntry string

record form_data =
  form_file :: "form_entry option"
  bucket_type :: "string option"
  entity_id :: "string option"
  image_type :: "string option"

text \<open>
  \<open>req_method\<close> is \<open>req.method\<close>; \<open>session_token\<close> is
  \<open>req.headers.get("x-session-token")\<close>. \<open>form\<close> is the outcome of \<open>req.formData()\<close>:
  \<open>Inl msg\<close> when it throws an error with message \<open>msg\<close> (a body that is not a form),
  \<open>Inr fd\<close> otherwise.
\<close>

record request =
  req_method :: string
  session_token :: "string option"
  form :: "string + form_data"

subsection \<open>Responses\<close>

datatype resp_body = Text string | JsonError string | JsonSuccess string

record response =
  status :: nat
  headers :: "(string \<times> string) list"
  body :: resp_body

definition corsHeaders :: "(string \<times> string) list" where
  "corsHeaders =
     [(''Access-Control-Allow-Origin'', ''*''),
      (''Access-Control-Allow-Headers'',
       ''authorization, x-client-info, apikey, content-type, x-session-token'')]"

definition json_headers :: "(string \<times> string) list" where
  "json_headers = corsHeaders @ [(''Content-Type'', ''application/json'')]"

text \<open>\<open>new Response(JSON.stringify({ error: msg }), { status: n, headers: ... })\<close>\<close>

definition json_error :: "nat \<Rightarrow> string \<Rightarrow> response" where
  "json_error n msg = \<lparr>status = n, headers = json_headers, body = JsonError msg\<rparr>"

text \<open>The success response carries no explicit status: 200.\<close>

definition json_success :: "string \<Rightarrow> response" where
  "json_success url = \<lparr>status = 200, headers = json_headers, body = JsonSuccess url\<rparr>"

definition preflight_response :: response where
  "preflight_response = \<lparr>status = 200, headers = corsHeaders, body = Text ''ok''\<rparr>"

subsection \<open>The stores and the collaborators\<close>

text \<open>
  A row maps a column name to its value (\<open>None\<close> for SQL null); a table maps an \<open>id\<close>
  to its row; \<open>db\<close> maps a table name to the table. \<open>buckets\<close> maps a bucket name and
  a path to the stored object.
\<close>

type_synonym row = "string \<rightharpoonup> string"

record stored_object =
  object_bytes :: string
  contentType :: string

record world =
  db :: "string \<Rightarrow> string \<rightharpoonup> row"
  buckets :: "string \<Rightarrow> string \<rightharpoonup> stored_object"

text \<open>The \<open>{ data, error }\<close> pair every call of the client library returns.\<close>

record 'a pg_result =
  data :: "'a option"
  error :: "string option"

text \<open>
  What the collaborators do during one invocation: how the session service resolves a
  token, whether the ownership query, the storage write and the row update fail (with
  which message), how the object store names a public URL, and the clock.
\<close>

record env =
  validate_session :: "string \<Rightarrow> string pg_result"
  select_error :: "string option"
  upload_error :: "string option"
  update_error :: "string option"
  getPublicUrl :: "string \<Rightarrow> string \<Rightarrow> string"
  now :: string

datatype call =
    RpcValidateSession string
  | SelectOwner string string
  | StorageUpload string string stored_object
  | RowUpdate string string "(string \<times> string) list"

text \<open>
  \<open>.from(tbl).select(col).eq("id", id).single()\<close>: an error when the query fails or
  when it does not find exactly one row (\<open>id\<close> is the key, so: no row), the row
  otherwise.
\<close>

definition select_single :: "env \<Rightarrow> world \<Rightarrow> string \<Rightarrow> string \<Rightarrow> row pg_result" where
  "select_single e w tbl ident =
     (case select_error e of
        Some msg \<Rightarrow> \<lparr>data = None, error = Some msg\<rparr>
      | None \<Rightarrow>
          (case db w tbl ident of
             None \<Rightarrow> \<lparr>data = None, error = Some ''PGRST116''\<rparr>
           | Some r \<Rightarrow> \<lparr>data = Some r, error = None\<rparr>))"

text \<open>The object store with the object at that path created or replaced.\<close>

definition storage_put :: "world \<Rightarrow> string \<Rightarrow> string \<Rightarrow> stored_object \<Rightarrow> world" where
  "storage_put w bucket path obj =
     w\<lparr>buckets := (buckets w)(bucket := (buckets w bucket)(path \<mapsto> obj))\<rparr>"

text \<open>
  \<open>storage.from(bucket).upload(path, bytes, { contentType, upsert })\<close>: the error and
  the store afterwards. A write that fails leaves the store as it was. Without
  \<open>upsert\<close> the object store refuses to write over an existing object; with it the
  object at that path is created or replaced.
\<close>

definition storage_upload ::
  "env \<Rightarrow> world \<Rightarrow> string \<Rightarrow> string \<Rightarrow> stored_object \<Rightarrow> bool \<Rightarrow> string option \<times> world" where
  "storage_upload e w bucket path obj upsert =
     (case upload_error e of
        Some msg \<Rightarrow> (Some msg, w)
      | None \<Rightarrow>
          (case buckets w bucket path of
             None \<Rightarrow> (None, storage_put w bucket path obj)
           | Some old \<Rightarrow>
               if upsert then (None, storage_put w bucket path obj)
               else (Some ''The resource already exists'', w)))"

text \<open>
  \<open>.from(tbl).update(patch).eq("id", id)\<close> when it succeeds: the columns of the patch
  are set on the row with that id; with no such row nothing changes.
\<close>

definition row_update :: "world \<Rightarrow> string \<Rightarrow> string \<Rightarrow> (string \<times> string) list \<Rightarrow> world" where
  "row_update w tbl ident patch =
     (case db w tbl ident of
        None \<Rightarrow> w
      | Some r \<Rightarrow> w\<lparr>db := (db w)(tbl := (db w tbl)(ident \<mapsto> r ++ map_of patch))\<rparr>)"

subsection \<open>JavaScript helpers\<close>

text \<open>\<open>s.split(sep)\<close> for a one-character separator: never the empty list.\<close>

fun split_str :: "char \<Rightarrow> string \<Rightarrow> string list" where
  "split_str sep [] = [[]]"
| "split_str sep (c # cs) =
     (if c = sep then [] # split_str sep cs
      else (case split_str sep cs of
              [] \<Rightarrow> [[c]]
            | s # ss \<Rightarrow> (c # s) # ss))"

text \<open>\<open>xs.pop()\<close>: the last element, \<open>undefined\<close> (here \<open>None\<close>) on the empty array.\<close>

definition pop :: "'a list \<Rightarrow> 'a option" where
  "pop xs = (if xs = [] then None else Some (last xs))"

text \<open>A string is falsy exactly when it is empty; \<open>null\<close> is falsy; a \<open>File\<close> is truthy.\<close>

definition falsy :: "string option \<Rightarrow> bool" where
  "falsy x = (case x of None \<Rightarrow> True | Some s \<Rightarrow> s = [])"

definition falsy_entry :: "form_entry option \<Rightarrow> bool" where
  "falsy_entry x =
     (case x of None \<Rightarrow> True | Some (TextEntry s) \<Rightarrow> s = [] | Some (FileEntry f) \<Rightarrow> False)"

subsection \<open>The handler\<close>

definition validBuckets :: "string list" where
  "validBuckets = [''communities'', ''businesses'']"

definition allowedTypes :: "string list" where
  "allowedTypes = [''image/jpeg'', ''image/png'', ''image/gif'', ''image/webp'']"

text \<open>\<open>const fileExt = file.name.split(".").pop() || "jpg"\<close>\<close>

definition fileExt :: "string \<Rightarrow> string" where
  "fileExt nm =
     (case pop (split_str (CHR ''.'') nm) of
        None \<Rightarrow> ''jpg''
      | Some s \<Rightarrow> if s = [] then ''jpg'' else s)"

text \<open>\<open>const fileName = `${entityId}/${imageType}.${fileExt}`\<close>\<close>

definition fileName :: "string \<Rightarrow> string \<Rightarrow> string \<Rightarrow> string" where
  "fileName entityId imageType nm = entityId @ ''/'' @ imageType @ ''.'' @ fileExt nm"

text \<open>\<open>const updateField = imageType === "cover" ? "cover_image_url" : "logo_url"\<close>\<close>

definition updateField :: "string \<Rightarrow> string" where
  "updateField imageType = (if imageType = ''cover'' then ''cover_image_url'' else ''logo_url'')"

text \<open>
  \<open>error || !row || row.col !== userId\<close> on the result of the ownership query.
\<close>

definition not_owner :: "row pg_result \<Rightarrow> string \<Rightarrow> string \<Rightarrow> bool" where
  "not_owner q col userId =
     (case error q of
        Some msg \<Rightarrow> True
      | None \<Rightarrow> (case data q of None \<Rightarrow> True | Some r \<Rightarrow> r col \<noteq> Some userId))"

record outcome =
  resp :: response
  after :: world
  calls :: "call list"

definition finish :: "response \<Rightarrow> world \<Rightarrow> call list \<Rightarrow> outcome" where
  "finish r w cs = \<lparr>resp = r, after = w, calls = cs\<rparr>"

text \<open>
  The handler, check by check in the order of the source. Every early \<open>return\<close> is a
  \<open>finish\<close>; the \<open>catch\<close> around the body answers a thrown error with a 500 carrying its
  message (the one call that throws on a request is \<open>req.formData()\<close>). The ownership
  check and the row update are each an \<open>if\<close> / \<open>else if\<close> on the bucket type with no
  final \<open>else\<close>, and are written so. The storage write is made with \<open>upsert: true\<close>.
  A string sent as the \<open>file\<close> field has neither
  \<open>size\<close> nor \<open>type\<close>: the size test is false on \<open>undefined\<close> and the type test
  rejects it.
\<close>

definition serve :: "env \<Rightarrow> world \<Rightarrow> request \<Rightarrow> outcome" where
  "serve e w req =
    (if req_method req = ''OPTIONS'' then finish preflight_response w []
     else if falsy (session_token req)
     then finish (json_error 401 ''No session token provided'') w []
     else
      (case session_token req of
         None \<Rightarrow> finish (json_error 401 ''No session token provided'') w []
       | Some sessionToken \<Rightarrow>
      let s = validate_session e sessionToken;
          c1 = [RpcValidateSession sessionToken]
      in
      (case (error s, data s) of
         (Some msg, _) \<Rightarrow> finish (json_error 401 ''Invalid or expired session'') w c1
       | (None, None) \<Rightarrow> finish (json_error 401 ''Invalid or expired session'') w c1
       | (None, Some userId) \<Rightarrow>
      if userId = [] then finish (json_error 401 ''Invalid or expired session'') w c1
      else
      (case form req of
         Inl msg \<Rightarrow> finish (json_error 500 msg) w c1
       | Inr fd \<Rightarrow>
      if falsy_entry (form_file fd) \<or> falsy (bucket_type fd) \<or> falsy (entity_id fd)
         \<or> falsy (image_type fd)
      then finish (json_error 400
             ''File, bucket_type, entity_id, and image_type are required'') w c1
      else
      (case (form_file fd, bucket_type fd, entity_id fd, image_type fd) of
         (Some fileE, Some bucketType, Some entityId, Some imageType) \<Rightarrow>
      if bucketType \<notin> set validBuckets
      then finish (json_error 400 ''Invalid bucket type'') w c1
      else
      (case fileE of
         TextEntry t \<Rightarrow>
           finish (json_error 400 ''Only JPEG, PNG, GIF, and WebP images are allowed'') w c1
       | FileEntry f \<Rightarrow>
      if file_size f > 5 * 1024 * 1024
      then finish (json_error 400 ''File must be less than 5MB'') w c1
      else if file_type f \<notin> set allowedTypes
      then finish (json_error 400 ''Only JPEG, PNG, GIF, and WebP images are allowed'') w c1
      else
      let (denied, c2) =
            (if bucketType = ''communities'' then
               (if not_owner (select_single e w ''communities'' entityId) ''created_by'' userId
                then Some (json_error 403
                       ''Not authorized to upload images for this community'')
                else None,
                c1 @ [SelectOwner ''communities'' entityId])
             else if bucketType = ''businesses'' then
               (if not_owner (select_single e w ''businesses'' entityId) ''owner_id'' userId
                then Some (json_error 403
                       ''Not authorized to upload images for this business'')
                else None,
                c1 @ [SelectOwner ''businesses'' entityId])
             else (None, c1))
      in
      (case denied of
         Some r \<Rightarrow> finish r w c2
       | None \<Rightarrow>
      let path = fileName entityId imageType (file_name f);
          obj = \<lparr>object_bytes = file_content f, contentType = file_type f\<rparr>;
          c3 = c2 @ [StorageUpload bucketType path obj]
      in
      (case storage_upload e w bucketType path obj True of
         (Some msg, w0) \<Rightarrow> finish (json_error 500 msg) w0 c3
       | (None, w1) \<Rightarrow>
      let publicUrl = getPublicUrl e bucketType path;
          patch = [(updateField imageType, publicUrl), (''updated_at'', now e)];
          (failed, w2, c4) =
            (if bucketType = ''communities'' then
               (case update_error e of
                  Some msg \<Rightarrow> (Some msg, w1, c3 @ [RowUpdate ''communities'' entityId patch])
                | None \<Rightarrow> (None, row_update w1 ''communities'' entityId patch,
                           c3 @ [RowUpdate ''communities'' entityId patch]))
             else if bucketType = ''businesses'' then
               (case update_error e of
                  Some msg \<Rightarrow> (Some msg, w1, c3 @ [RowUpdate ''businesses'' entityId patch])
                | None \<Rightarrow> (None, row_update w1 ''businesses'' entityId patch,
                           c3 @ [RowUpdate ''businesses'' entityId patch]))
             else (None, w1, c3))
      in
      (case failed of
         Some msg \<Rightarrow> finish (json_error 500 msg) w2 c4
       | None \<Rightarrow> finish (json_success publicUrl) w2 c4))))
       | _ \<Rightarrow> finish (json_error 400
             ''File, bucket_type, entity_id, and image_type are required'') w c1)))))"

subsection \<open>Reading an outcome\<close>

text \<open>The value of a column of the row \<open>ident\<close> of table \<open>tbl\<close> (\<open>None\<close>: no row, or null).\<close>

definition column :: "world \<Rightarrow> string \<Rightarrow> string \<Rightarrow> string \<Rightarrow> string option" where
  "column w tbl ident col = (case db w tbl ident of None \<Rightarrow> None | Some r \<Rightarrow> r col)"

fun is_upload :: "call \<Rightarrow> bool" where
  "is_upload (StorageUpload b p obj) = True"
| "is_upload c = False"

fun is_update :: "call \<Rightarrow> bool" where
  "is_update (RowUpdate t i patch) = True"
| "is_update c = False"

text \<open>A form in which every field sent as the empty string is taken out.\<close>

definition absent_if_empty :: "form_data \<Rightarrow> form_data" where
  "absent_if_empty fd =
     \<lparr>form_file = (if form_file fd = Some (TextEntry []) then None else form_file fd),
      bucket_type = (if bucket_type fd = Some [] then None else bucket_type fd),
      entity_id = (if entity_id fd = Some [] then None else entity_id fd),
      image_type = (if image_type fd = Some [] then None else image_type fd)\<rparr>"

subsection \<open>Example data\<close>

text \<open>
  The scenarios of the specification: user \<open>U1\<close> owns community \<open>C1\<close> and business
  \<open>B1\<close>; community \<open>C2\<close> belongs to \<open>U2\<close> and has a cover already; the token
  \<open>tok-U1\<close> resolves to \<open>U1\<close> and no other token resolves.
\<close>

definition env_ok :: env where
  "env_ok =
     \<lparr>validate_session =
        (\<lambda>t. if t = ''tok-U1'' then \<lparr>data = Some ''U1'', error = None\<rparr>
             else \<lparr>data = None, error = None\<rparr>),
      select_error = None, upload_error = None, update_error = None,
      getPublicUrl = (\<lambda>b p. ''https://store.example/'' @ b @ ''/'' @ p),
      now = ''2024-01-01T00:00:00.000Z''\<rparr>"

definition env_storage_down :: env where
  "env_storage_down = env_ok\<lparr>upload_error := Some ''storage unavailable''\<rparr>"

definition world0 :: world where
  "world0 =
     \<lparr>db = (\<lambda>t. if t = ''communities''
               then [''C1'' \<mapsto> [''created_by'' \<mapsto> ''U1''],
                     ''C2'' \<mapsto> [''created_by'' \<mapsto> ''U2'', ''cover_image_url'' \<mapsto> ''old'']]
               else if t = ''businesses'' then [''B1'' \<mapsto> [''owner_id'' \<mapsto> ''U1'']]
               else Map.empty),
      buckets = (\<lambda>b. Map.empty)\<rparr>"

definition world_empty :: world where
  "world_empty = \<lparr>db = (\<lambda>t. Map.empty), buckets = (\<lambda>b. Map.empty)\<rparr>"

definition image_file :: "string \<Rightarrow> nat \<Rightarrow> string \<Rightarrow> upload_file" where
  "image_file nm sz ty =
     \<lparr>file_name = nm, file_size = sz, file_type = ty, file_content = ''bytes''\<rparr>"

definition upload_form :: "upload_file \<Rightarrow> string \<Rightarrow> string \<Rightarrow> string \<Rightarrow> form_data" where
  "upload_form f b i k =
     \<lparr>form_file = Some (FileEntry f), bucket_type = Some b, entity_id = Some i,
      image_type = Some k\<rparr>"

definition post :: "string option \<Rightarrow> form_data \<Rightarrow> request" where
  "post tok fd = \<lparr>req_method = ''POST'', session_token = tok, form = Inr fd\<rparr>"

definition photo_png :: upload_file where
  "photo_png = image_file ''photo.png'' 2097152 ''image/png''"

section \<open>Properties\<close>

subsection \<open>The file extension\<close>

lemma split_str_no_sep: "sep \<notin> set nm \<Longrightarrow> split_str sep nm = [nm]"
  by (induction nm) auto

lemma split_str_not_Nil: "split_str sep s \<noteq> []"
  by (induction s) (auto split: list.splits)

lemma split_str_append:
  "sep \<notin> set b \<Longrightarrow> split_str sep (a @ sep # b) = split_str sep a @ [b]"
  by (induction a) (auto simp: split_str_no_sep split_str_not_Nil split: list.splits)

text \<open>The text after the last dot, when there is a dot and that text is not empty.\<close>

lemma fileExt_suffix:
  "CHR ''.'' \<notin> set ext \<Longrightarrow> ext \<noteq> [] \<Longrightarrow> fileExt (base @ ''.'' @ ext) = ext"
  by (simp add: fileExt_def pop_def split_str_append split_str_not_Nil)

text \<open>The default applies to a name that ends in a dot, and to the empty name.\<close>

lemma fileExt_trailing_dot: "fileExt (base @ ''.'') = ''jpg''"
  using split_str_append [of "CHR ''.''" "[]" base]
  by (simp add: fileExt_def pop_def)

lemma fileExt_empty: "fileExt [] = ''jpg''"
  by (simp add: fileExt_def pop_def)

text \<open>A name without a dot is its own extension: \<open>split\<close> returns the whole name.\<close>

lemma fileExt_no_dot: "CHR ''.'' \<notin> set nm \<Longrightarrow> nm \<noteq> [] \<Longrightarrow> fileExt nm = nm"
  by (simp add: fileExt_def pop_def split_str_no_sep)

subsection \<open>The shape of every run\<close>

text \<open>
  Every run of the handler is of one of three kinds: a preflight; a rejection before
  the ownership check (a 401, a 400, or the 500 of an unreadable form), with the stores
  untouched and at most the session service called; or a run that reaches the ownership
  check, whose outcome \<open>serve_reached\<close> gives.
\<close>

lemmas check_defs = falsy_def falsy_entry_def validBuckets_def allowedTypes_def

lemmas run_defs = serve_def check_defs not_owner_def select_single_def

lemmas example_defs = env_ok_def env_storage_down_def world0_def world_empty_def post_def
  upload_form_def photo_png_def image_file_def

lemma status_json_error [simp]: "status (json_error n msg) = n"
  by (simp add: json_error_def)

lemma status_json_success [simp]: "status (json_success url) = 200"
  by (simp add: json_success_def)

lemma outcome_finish [simp]:
  "resp (finish r w c) = r" "after (finish r w c) = w" "calls (finish r w c) = c"
  by (simp_all add: finish_def)

text \<open>The handler writes with \<open>upsert: true\<close>: only the object store itself can fail.\<close>

lemma storage_upload_upsert [simp]:
  "storage_upload e w bucket path obj True =
     (case upload_error e of
        Some msg \<Rightarrow> (Some msg, w)
      | None \<Rightarrow> (None, storage_put w bucket path obj))"
  by (simp add: storage_upload_def split: option.splits)

lemma serve_preflight:
  "req_method req = ''OPTIONS'' \<Longrightarrow> serve e w req = finish preflight_response w []"
  by (simp add: serve_def)

lemma serve_reached:
  assumes "req_method req \<noteq> ''OPTIONS''"
    and "session_token req = Some t" and "t \<noteq> []"
    and "error (validate_session e t) = None"
    and "data (validate_session e t) = Some u" and "u \<noteq> []"
    and "form req = Inr fd"
    and "form_file fd = Some (FileEntry f)"
    and "bucket_type fd = Some b" and "b = ''communities'' \<or> b = ''businesses''"
    and "entity_id fd = Some i" and "i \<noteq> []"
    and "image_type fd = Some k" and "k \<noteq> []"
    and "file_size f \<le> 5242880" and "file_type f \<in> set allowedTypes"
  shows "serve e w req =
    (let c2 = [RpcValidateSession t, SelectOwner b i];
         path = fileName i k (file_name f);
         obj = \<lparr>object_bytes = file_content f, contentType = file_type f\<rparr>;
         c3 = c2 @ [StorageUpload b path obj];
         url = getPublicUrl e b path;
         patch = [(updateField k, url), (''updated_at'', now e)];
         c4 = c3 @ [RowUpdate b i patch]
     in
     if not_owner (select_single e w b i)
          (if b = ''communities'' then ''created_by'' else ''owner_id'') u
     then finish (json_error 403
            (if b = ''communities'' then ''Not authorized to upload images for this community''
             else ''Not authorized to upload images for this business'')) w c2
     else (case upload_error e of
             Some msg \<Rightarrow> finish (json_error 500 msg) w c3
           | None \<Rightarrow>
               (case update_error e of
                  Some msg \<Rightarrow> finish (json_error 500 msg) (storage_put w b path obj) c4
                | None \<Rightarrow> finish (json_success url)
                           (row_update (storage_put w b path obj) b i patch) c4)))"
proof -
  from assms(10) show ?thesis
  proof
    assume "b = ''communities''"
    with assms show ?thesis
      by (simp add: serve_def check_defs Let_def split: option.splits)
  next
    assume "b = ''businesses''"
    with assms show ?thesis
      by (simp add: serve_def check_defs Let_def split: option.splits)
  qed
qed

lemma serve_cases [case_names preflight rejected reached]:
  obtains
    "req_method req = ''OPTIONS''" and "serve e w req = finish preflight_response w []"
  | n msg c where "req_method req \<noteq> ''OPTIONS''"
      and "serve e w req = finish (json_error n msg) w c"
      and "n = 400 \<or> n = 401 \<or> n = 500"
      and "c = [] \<or> (\<exists>t. c = [RpcValidateSession t])"
  | t u fd f b i k where "req_method req \<noteq> ''OPTIONS''"
      and "session_token req = Some t" and "t \<noteq> []"
      and "error (validate_session e t) = None"
      and "data (validate_session e t) = Some u" and "u \<noteq> []"
      and "form req = Inr fd"
      and "form_file fd = Some (FileEntry f)"
      and "bucket_type fd = Some b" and "b = ''communities'' \<or> b = ''businesses''"
      and "entity_id fd = Some i" and "i \<noteq> []"
      and "image_type fd = Some k" and "k \<noteq> []"
      and "file_size f \<le> 5242880" and "file_type f \<in> set allowedTypes"
proof (cases "req_method req = ''OPTIONS''")
  case True
  then show ?thesis using that(1) by (simp add: serve_def)
next
  case m: False
  show ?thesis
  proof (cases "session_token req")
    case None
    with m have "serve e w req = finish (json_error 401 ''No session token provided'') w []"
      by (simp add: serve_def falsy_def)
    with m show ?thesis using that(2) by blast
  next
    case tok: (Some t)
    show ?thesis
    proof (cases "t = [] \<or> error (validate_session e t) \<noteq> None
        \<or> data (validate_session e t) = None \<or> data (validate_session e t) = Some []")
      case True
      with m tok have "\<exists>msg c. serve e w req = finish (json_error 401 msg) w c
          \<and> (c = [] \<or> c = [RpcValidateSession t])"
        by (auto simp: serve_def falsy_def Let_def split: option.splits)
      with m show ?thesis using that(2) by blast
    next
      case False
      then obtain u where s: "t \<noteq> []" "error (validate_session e t) = None"
        "data (validate_session e t) = Some u" "u \<noteq> []"
        by auto
      show ?thesis
      proof (cases "form req")
        case (Inl msg)
        with m tok s have "serve e w req = finish (json_error 500 msg) w [RpcValidateSession t]"
          by (simp add: serve_def falsy_def)
        with m show ?thesis using that(2) by blast
      next
        case fd: (Inr fd)
        show ?thesis
        proof (cases "falsy_entry (form_file fd) \<or> falsy (bucket_type fd)
            \<or> falsy (entity_id fd) \<or> falsy (image_type fd)")
          case True
          with m tok s fd have "serve e w req = finish (json_error 400
            ''File, bucket_type, entity_id, and image_type are required'') w [RpcValidateSession t]"
            by (simp add: serve_def falsy_def)
          with m show ?thesis using that(2) by blast
        next
          case False
          then obtain fe b i k where flds: "form_file fd = Some fe" "bucket_type fd = Some b"
            "entity_id fd = Some i" "image_type fd = Some k" "b \<noteq> []" "i \<noteq> []" "k \<noteq> []"
            by (auto simp: falsy_def falsy_entry_def split: option.splits)
          show ?thesis
          proof (cases "b \<in> set validBuckets \<and> (\<exists>f. fe = FileEntry f \<and> file_size f \<le> 5242880
              \<and> file_type f \<in> set allowedTypes)")
            case True
            then obtain f where "fe = FileEntry f" "file_size f \<le> 5242880"
              "file_type f \<in> set allowedTypes" "b = ''communities'' \<or> b = ''businesses''"
              by (auto simp: validBuckets_def)
            with m tok s fd flds show ?thesis using that(3) by blast
          next
            case bad: False
            with m tok s fd flds False
            have "\<exists>msg. serve e w req = finish (json_error 400 msg) w [RpcValidateSession t]"
              by (cases fe) (auto simp: serve_def falsy_def falsy_entry_def Let_def)
            with m show ?thesis using that(2) by blast
          qed
        qed
      qed
    qed
  qed
qed

subsection \<open>File validation\<close>

text \<open>
  Claim C7. For a request that reaches the file checks (not a preflight, a session that
  resolves, a form with its four fields present and not empty, a recognised bucket
  type): a file larger than 5,242,880 bytes is rejected with the 400 size error whatever
  its content type; a file within the size limit whose content type is not one of
  image/jpeg, image/png, image/gif, image/webp is rejected with the 400 type error; and
  the answer is not a 400 exactly when the size is at most 5,242,880 and the content
  type is one of the four.
\<close>

theorem file_validation_exact:
  assumes "req_method req \<noteq> ''OPTIONS''"
    and "session_token req = Some t" and "t \<noteq> []"
    and "validate_session e t = \<lparr>data = Some u, error = None\<rparr>" and "u \<noteq> []"
    and "form req = Inr fd"
    and "form_file fd = Some (FileEntry f)"
    and "bucket_type fd = Some b" and "b = ''communities'' \<or> b = ''businesses''"
    and "entity_id fd = Some i" and "i \<noteq> []"
    and "image_type fd = Some k" and "k \<noteq> []"
  shows "(file_size f > 5242880 \<longrightarrow>
            resp (serve e w req) = json_error 400 ''File must be less than 5MB'')
       \<and> (file_size f \<le> 5242880
            \<and> file_type f \<notin> {''image/jpeg'', ''image/png'', ''image/gif'', ''image/webp''} \<longrightarrow>
            resp (serve e w req)
              = json_error 400 ''Only JPEG, PNG, GIF, and WebP images are allowed'')
       \<and> (status (resp (serve e w req)) \<noteq> 400 \<longleftrightarrow>
            file_size f \<le> 5242880
            \<and> file_type f \<in> {''image/jpeg'', ''image/png'', ''image/gif'', ''image/webp''})"
  using assms
  by (auto simp: serve_def Let_def falsy_def falsy_entry_def validBuckets_def allowedTypes_def
       finish_def json_error_def json_success_def split: option.splits)

text \<open>
  A WebP of exactly 5,242,880 bytes is not answered with a 400; a PNG one byte larger
  and a small PDF are.
\<close>

theorem file_validation_exact_witness:
  "status (resp (serve env_ok world0 (post (Some ''tok-U1'')
      (upload_form (image_file ''max.webp'' 5242880 ''image/webp'')
         ''communities'' ''C1'' ''cover'')))) \<noteq> 400
   \<and> resp (serve env_ok world0 (post (Some ''tok-U1'')
      (upload_form (image_file ''big.png'' 5242881 ''image/png'')
         ''communities'' ''C1'' ''cover'')))
     = json_error 400 ''File must be less than 5MB''
   \<and> resp (serve env_ok world0 (post (Some ''tok-U1'')
      (upload_form (image_file ''notes.pdf'' 1024 ''application/pdf'')
         ''communities'' ''C1'' ''cover'')))
     = json_error 400 ''Only JPEG, PNG, GIF, and WebP images are allowed''"
  using
    file_validation_exact [where e = env_ok and w = world0 and t = "''tok-U1''"
      and u = "''U1''" and b = "''communities''" and i = "''C1''" and k = "''cover''"
      and f = "image_file ''max.webp'' 5242880 ''image/webp''"
      and fd = "upload_form (image_file ''max.webp'' 5242880 ''image/webp'')
                  ''communities'' ''C1'' ''cover''"
      and req = "post (Some ''tok-U1'')
                  (upload_form (image_file ''max.webp'' 5242880 ''image/webp'')
                     ''communities'' ''C1'' ''cover'')"]
    file_validation_exact [where e = env_ok and w = world0 and t = "''tok-U1''"
      and u = "''U1''" and b = "''communities''" and i = "''C1''" and k = "''cover''"
      and f = "image_file ''big.png'' 5242881 ''image/png''"
      and fd = "upload_form (image_file ''big.png'' 5242881 ''image/png'')
                  ''communities'' ''C1'' ''cover''"
      and req = "post (Some ''tok-U1'')
                  (upload_form (image_file ''big.png'' 5242881 ''image/png'')
                     ''communities'' ''C1'' ''cover'')"]
    file_validation_exact [where e = env_ok and w = world0 and t = "''tok-U1''"
      and u = "''U1''" and b = "''communities''" and i = "''C1''" and k = "''cover''"
      and f = "image_file ''notes.pdf'' 1024 ''application/pdf''"
      and fd = "upload_form (image_file ''notes.pdf'' 1024 ''application/pdf'')
                  ''communities'' ''C1'' ''cover''"
      and req = "post (Some ''tok-U1'')
                  (upload_form (image_file ''notes.pdf'' 1024 ''application/pdf'')
                     ''communities'' ''C1'' ''cover'')"]
  by (simp add: env_ok_def post_def upload_form_def image_file_def)

subsection \<open>The session check comes first\<close>

text \<open>
  Claim C5, as the code has it. A preflight (\<open>OPTIONS\<close>) is answered before the
  session is looked at. Every other request without an \<open>x-session-token\<close> header is
  answered with the 401 \<open>No session token provided\<close>, whatever its form holds and even
  when the form cannot be read; no collaborator is called and the stores are untouched.
\<close>

theorem missing_token_401:
  assumes "req_method req \<noteq> ''OPTIONS''" and "session_token req = None"
  shows "serve e w req = finish (json_error 401 ''No session token provided'') w []"
  using assms by (simp add: serve_def falsy_def)

theorem missing_token_401_witness:
  "serve env_ok world0 (post None (upload_form photo_png ''communities'' ''C1'' ''cover''))
     = finish (json_error 401 ''No session token provided'') world0 []
   \<and> serve env_ok world0
       \<lparr>req_method = ''POST'', session_token = None, form = Inl ''not a form''\<rparr>
     = finish (json_error 401 ''No session token provided'') world0 []"
  using
    missing_token_401 [of "post None (upload_form photo_png ''communities'' ''C1'' ''cover'')"
      env_ok world0]
    missing_token_401 [of "\<lparr>req_method = ''POST'', session_token = None, form = Inl ''not a form''\<rparr>"
      env_ok world0]
  by (simp add: post_def)

text \<open>
  Claim C5 as stated fails on a preflight: it carries no session token and is answered
  with a 200.
\<close>

theorem preflight_without_token_counterexample:
  "session_token \<lparr>req_method = ''OPTIONS'', session_token = None, form = Inl ''no body''\<rparr> = None
   \<and> status (resp (serve env_ok world0
        \<lparr>req_method = ''OPTIONS'', session_token = None, form = Inl ''no body''\<rparr>)) = 200"
  by (simp add: serve_def preflight_response_def)

subsection \<open>The bucket type\<close>

text \<open>
  Claim C8, as the code has it. For a request that is not a preflight, whose session
  resolves and whose form can be read, a \<open>bucket_type\<close> other than \<open>communities\<close> and
  \<open>businesses\<close> is answered with a 400 and the stores are untouched; the 400 is
  \<open>Invalid bucket type\<close> when the four fields are all present and not empty (otherwise
  it is the 400 of the required-field check).
\<close>

theorem bad_bucket_400:
  assumes "req_method req \<noteq> ''OPTIONS''"
    and "session_token req = Some t" and "t \<noteq> []"
    and "validate_session e t = \<lparr>data = Some u, error = None\<rparr>" and "u \<noteq> []"
    and "form req = Inr fd"
    and "bucket_type fd = Some b" and "b \<noteq> ''communities''" and "b \<noteq> ''businesses''"
  shows "status (resp (serve e w req)) = 400 \<and> after (serve e w req) = w
       \<and> (\<not> falsy_entry (form_file fd) \<and> b \<noteq> [] \<and> \<not> falsy (entity_id fd)
            \<and> \<not> falsy (image_type fd)
            \<longrightarrow> resp (serve e w req) = json_error 400 ''Invalid bucket type'')"
  using assms
  by (auto simp: serve_def Let_def falsy_def falsy_entry_def validBuckets_def
       split: option.splits form_entry.splits)

theorem bad_bucket_400_witness:
  "resp (serve env_ok world0 (post (Some ''tok-U1'')
      (upload_form photo_png ''users'' ''C1'' ''cover'')))
     = json_error 400 ''Invalid bucket type''
   \<and> after (serve env_ok world0 (post (Some ''tok-U1'')
      (upload_form photo_png ''users'' ''C1'' ''cover''))) = world0"
  using bad_bucket_400 [where e = env_ok and w = world0 and t = "''tok-U1''" and u = "''U1''"
      and b = "''users''" and fd = "upload_form photo_png ''users'' ''C1'' ''cover''"
      and req = "post (Some ''tok-U1'') (upload_form photo_png ''users'' ''C1'' ''cover'')"]
  by (simp add: env_ok_def post_def upload_form_def falsy_def falsy_entry_def)

text \<open>
  Claim C8 as stated fails when the session check rejects the request first: an
  unrecognised bucket type without a session token is answered with a 401.
\<close>

theorem bad_bucket_without_session_counterexample:
  "bucket_type (upload_form photo_png ''users'' ''C1'' ''cover'') = Some ''users''
   \<and> ''users'' \<notin> set validBuckets
   \<and> status (resp (serve env_ok world0
        (post None (upload_form photo_png ''users'' ''C1'' ''cover'')))) = 401"
  by (simp add: serve_def post_def upload_form_def falsy_def validBuckets_def)

subsection \<open>Rejections leave the stores alone\<close>

text \<open>
  Claim C3. A request answered with a 400 (missing field, bad bucket type, oversize
  file, disallowed content type) or a 403 (entity missing or not owned) leaves the
  stores exactly as they were, and neither the storage write nor the row update was
  called.
\<close>

theorem rejection_leaves_state:
  assumes "status (resp (serve e w req)) = 400 \<or> status (resp (serve e w req)) = 403"
  shows "after (serve e w req) = w \<and> \<not> list_ex is_upload (calls (serve e w req))
         \<and> \<not> list_ex is_update (calls (serve e w req))"
proof (cases rule: serve_cases [of req e w])
  case preflight
  with assms show ?thesis by (simp add: preflight_response_def)
next
  case (rejected n msg c)
  then show ?thesis by auto
next
  case (reached t u fd f b i k)
  from serve_reached [OF reached] assms show ?thesis
    by (auto simp: Let_def split: if_splits option.splits)
qed

text \<open>
  The scenario of the specification: \<open>U1\<close> uploads a cover for community \<open>C2\<close>, which
  belongs to \<open>U2\<close>.
\<close>

theorem rejection_leaves_state_witness:
  "status (resp (serve env_ok world0 (post (Some ''tok-U1'')
      (upload_form photo_png ''communities'' ''C2'' ''cover'')))) = 403
   \<and> after (serve env_ok world0 (post (Some ''tok-U1'')
      (upload_form photo_png ''communities'' ''C2'' ''cover''))) = world0
   \<and> \<not> list_ex is_upload (calls (serve env_ok world0 (post (Some ''tok-U1'')
      (upload_form photo_png ''communities'' ''C2'' ''cover''))))
   \<and> \<not> list_ex is_update (calls (serve env_ok world0 (post (Some ''tok-U1'')
      (upload_form photo_png ''communities'' ''C2'' ''cover''))))"
proof -
  let ?req = "post (Some ''tok-U1'') (upload_form photo_png ''communities'' ''C2'' ''cover'')"
  have denied: "status (resp (serve env_ok world0 ?req)) = 403"
    by (simp add: run_defs example_defs)
  then have "status (resp (serve env_ok world0 ?req)) = 400
      \<or> status (resp (serve env_ok world0 ?req)) = 403" ..
  from denied rejection_leaves_state [OF this] show ?thesis by blast
qed

subsection \<open>The row is written only after the object\<close>

text \<open>
  Claim C4. When the storage write is made and returns an error, the answer is a 500
  with that error's message, the stores are as before and no row update is made. And
  whenever a row update is made, or any table differs afterwards, the storage write
  was made just before it, it succeeded, and the object is in the store.
\<close>

theorem row_update_only_after_upload:
  "(list_ex is_upload (calls (serve e w req)) \<and> upload_error e = Some msg \<longrightarrow>
      resp (serve e w req) = json_error 500 msg \<and> after (serve e w req) = w
      \<and> \<not> list_ex is_update (calls (serve e w req)))
   \<and> (list_ex is_update (calls (serve e w req)) \<or> db (after (serve e w req)) \<noteq> db w \<longrightarrow>
      upload_error e = None
      \<and> (\<exists>c b p obj t i patch.
            calls (serve e w req) = c @ [StorageUpload b p obj, RowUpdate t i patch]
            \<and> buckets (after (serve e w req)) b p = Some obj))"
proof (cases rule: serve_cases [of req e w])
  case preflight
  then show ?thesis by simp
next
  case (rejected n msg c)
  then show ?thesis by auto
next
  case (reached t u fd f b i k)
  show ?thesis
    unfolding serve_reached [OF reached]
    by (auto simp: Let_def storage_put_def row_update_def split: option.splits)
qed

text \<open>The object store is unavailable while \<open>U1\<close> uploads a cover for \<open>C1\<close>.\<close>

theorem row_update_only_after_upload_witness:
  "list_ex is_upload (calls (serve env_storage_down world0 (post (Some ''tok-U1'')
      (upload_form photo_png ''communities'' ''C1'' ''cover''))))
   \<and> upload_error env_storage_down = Some ''storage unavailable''
   \<and> resp (serve env_storage_down world0 (post (Some ''tok-U1'')
      (upload_form photo_png ''communities'' ''C1'' ''cover'')))
       = json_error 500 ''storage unavailable''
   \<and> after (serve env_storage_down world0 (post (Some ''tok-U1'')
      (upload_form photo_png ''communities'' ''C1'' ''cover''))) = world0
   \<and> \<not> list_ex is_update (calls (serve env_storage_down world0 (post (Some ''tok-U1'')
      (upload_form photo_png ''communities'' ''C1'' ''cover''))))"
proof -
  let ?req = "post (Some ''tok-U1'') (upload_form photo_png ''communities'' ''C1'' ''cover'')"
  have up: "list_ex is_upload (calls (serve env_storage_down world0 ?req))"
    by (simp add: run_defs example_defs)
  have err: "upload_error env_storage_down = Some ''storage unavailable''"
    by (simp add: env_storage_down_def)
  from row_update_only_after_upload [of env_storage_down world0 ?req "''storage unavailable''"]
  have "list_ex is_upload (calls (serve env_storage_down world0 ?req))
      \<and> upload_error env_storage_down = Some ''storage unavailable'' \<longrightarrow>
      resp (serve env_storage_down world0 ?req) = json_error 500 ''storage unavailable''
      \<and> after (serve env_storage_down world0 ?req) = world0
      \<and> \<not> list_ex is_update (calls (serve env_storage_down world0 ?req))"
    by (rule conjunct1)
  with up err show ?thesis by blast
qed

subsection \<open>Ownership is checked before the write\<close>

text \<open>
  Claim C10. Whenever the storage write is called, on bucket \<open>b\<close>, the calls before it
  were the session lookup and the ownership query on the table \<open>b\<close>, the bucket type
  of the form is \<open>b\<close>, and the row found there names the session's user in its owner
  column (\<open>created_by\<close> of a community, \<open>owner_id\<close> of a business): \<open>b\<close> is one of the
  two, so the branch of the handler without an ownership query is never the one taken.
\<close>

theorem upload_requires_ownership:
  assumes "StorageUpload b p obj \<in> set (calls (serve e w req))"
  shows "\<exists>t u fd i r.
           session_token req = Some t \<and> data (validate_session e t) = Some u
           \<and> form req = Inr fd \<and> bucket_type fd = Some b \<and> entity_id fd = Some i
           \<and> take 3 (calls (serve e w req))
               = [RpcValidateSession t, SelectOwner b i, StorageUpload b p obj]
           \<and> db w b i = Some r
           \<and> (b = ''communities'' \<and> r ''created_by'' = Some u
              \<or> b = ''businesses'' \<and> r ''owner_id'' = Some u)"
proof (cases rule: serve_cases [of req e w])
  case preflight
  with assms show ?thesis by simp
next
  case (rejected n msg c)
  with assms show ?thesis by auto
next
  case (reached t u fd f b' i k)
  from assms have up: "\<not> not_owner (select_single e w b' i)
          (if b' = ''communities'' then ''created_by'' else ''owner_id'') u"
    and b: "b' = b"
    unfolding serve_reached [OF reached]
    by (auto simp: Let_def split: if_splits option.splits)
  from up obtain r where r: "db w b' i = Some r"
    "r (if b' = ''communities'' then ''created_by'' else ''owner_id'') = Some u"
    by (auto simp: not_owner_def select_single_def split: option.splits)
  from r(2) reached(10) have own: "b' = ''communities'' \<and> r ''created_by'' = Some u
              \<or> b' = ''businesses'' \<and> r ''owner_id'' = Some u"
    by (cases "b' = ''communities''") simp_all
  from assms up have tr: "take 3 (calls (serve e w req))
      = [RpcValidateSession t, SelectOwner b' i, StorageUpload b p obj]"
    unfolding serve_reached [OF reached]
    by (auto simp: Let_def split: if_splits option.splits)
  from reached(2,5,7,9,11) r(1) own tr show ?thesis
    unfolding b by blast
qed

theorem upload_requires_ownership_witness:
  "StorageUpload ''communities'' ''C1/cover.png''
      \<lparr>object_bytes = ''bytes'', contentType = ''image/png''\<rparr>
     \<in> set (calls (serve env_ok world0 (post (Some ''tok-U1'')
          (upload_form photo_png ''communities'' ''C1'' ''cover''))))
   \<and> (\<exists>r. db world0 ''communities'' ''C1'' = Some r
          \<and> r ''created_by'' = data (validate_session env_ok ''tok-U1''))"
proof -
  let ?req = "post (Some ''tok-U1'') (upload_form photo_png ''communities'' ''C1'' ''cover'')"
  have up: "StorageUpload ''communities'' ''C1/cover.png''
      \<lparr>object_bytes = ''bytes'', contentType = ''image/png''\<rparr>
     \<in> set (calls (serve env_ok world0 ?req))"
    apply (simp add: run_defs example_defs)
    apply (simp add: Let_def fileName_def fileExt_def pop_def)
    done
  from upload_requires_ownership [OF up]
  obtain t u fd i r where "session_token ?req = Some t"
    "data (validate_session env_ok t) = Some u" "form ?req = Inr fd" "entity_id fd = Some i"
    "db world0 ''communities'' i = Some r" "r ''created_by'' = Some u"
    by auto
  then have "db world0 ''communities'' ''C1'' = Some r
      \<and> r ''created_by'' = data (validate_session env_ok ''tok-U1'')"
    by (auto simp: post_def upload_form_def)
  with up show ?thesis by blast
qed

subsection \<open>Empty form fields\<close>

lemma falsy_absent_if_empty:
  "falsy_entry (form_file (absent_if_empty fd)) = falsy_entry (form_file fd)"
  "falsy (bucket_type (absent_if_empty fd)) = falsy (bucket_type fd)"
  "falsy (entity_id (absent_if_empty fd)) = falsy (entity_id fd)"
  "falsy (image_type (absent_if_empty fd)) = falsy (image_type fd)"
  by (simp_all add: absent_if_empty_def falsy_def falsy_entry_def)

lemma serve_missing_field:
  assumes "form req = Inr fd"
    and "falsy_entry (form_file fd) \<or> falsy (bucket_type fd) \<or> falsy (entity_id fd)
         \<or> falsy (image_type fd)"
  shows "serve e w req =
    (if req_method req = ''OPTIONS'' then finish preflight_response w []
     else if falsy (session_token req)
     then finish (json_error 401 ''No session token provided'') w []
     else
      (case session_token req of
         None \<Rightarrow> finish (json_error 401 ''No session token provided'') w []
       | Some sessionToken \<Rightarrow>
      (case (error (validate_session e sessionToken), data (validate_session e sessionToken)) of
         (Some msg, _) \<Rightarrow> finish (json_error 401 ''Invalid or expired session'') w
                           [RpcValidateSession sessionToken]
       | (None, None) \<Rightarrow> finish (json_error 401 ''Invalid or expired session'') w
                           [RpcValidateSession sessionToken]
       | (None, Some userId) \<Rightarrow>
      if userId = [] then finish (json_error 401 ''Invalid or expired session'') w
                           [RpcValidateSession sessionToken]
      else finish (json_error 400
             ''File, bucket_type, entity_id, and image_type are required'') w
             [RpcValidateSession sessionToken])))"
  using assms
  by (simp add: serve_def Let_def split: option.splits)

text \<open>
  Claim C9. A form in which one of the four fields is the empty string is handled
  exactly as the form with every such field left out: the whole outcome is the same,
  for every request. When the request is not a preflight and its session resolves,
  that outcome is the 400 of the required-field check, with the stores untouched.
\<close>

theorem empty_field_as_absent:
  assumes "form req = Inr fd"
    and "form_file fd = Some (TextEntry []) \<or> bucket_type fd = Some []
         \<or> entity_id fd = Some [] \<or> image_type fd = Some []"
  shows "serve e w req = serve e w (req\<lparr>form := Inr (absent_if_empty fd)\<rparr>)
       \<and> (req_method req \<noteq> ''OPTIONS'' \<and> session_token req = Some t \<and> t \<noteq> []
            \<and> validate_session e t = \<lparr>data = Some u, error = None\<rparr> \<and> u \<noteq> [] \<longrightarrow>
          serve e w req = finish (json_error 400
             ''File, bucket_type, entity_id, and image_type are required'') w
             [RpcValidateSession t])"
proof -
  from assms(2)
  have f: "falsy_entry (form_file fd) \<or> falsy (bucket_type fd) \<or> falsy (entity_id fd)
         \<or> falsy (image_type fd)"
    by (auto simp: falsy_def falsy_entry_def)
  then have f': "falsy_entry (form_file (absent_if_empty fd))
      \<or> falsy (bucket_type (absent_if_empty fd)) \<or> falsy (entity_id (absent_if_empty fd))
      \<or> falsy (image_type (absent_if_empty fd))"
    by (simp only: falsy_absent_if_empty)
  have "form (req\<lparr>form := Inr (absent_if_empty fd)\<rparr>) = Inr (absent_if_empty fd)"
    by simp
  from serve_missing_field [OF this f', of e w]
  have "serve e w (req\<lparr>form := Inr (absent_if_empty fd)\<rparr>) = serve e w req"
    by (simp add: serve_missing_field [OF assms(1) f])
  moreover have "req_method req \<noteq> ''OPTIONS'' \<and> session_token req = Some t \<and> t \<noteq> []
            \<and> validate_session e t = \<lparr>data = Some u, error = None\<rparr> \<and> u \<noteq> [] \<longrightarrow>
          serve e w req = finish (json_error 400
             ''File, bucket_type, entity_id, and image_type are required'') w
             [RpcValidateSession t]"
    by (simp add: serve_missing_field [OF assms(1) f] falsy_def)
  ultimately show ?thesis by simp
qed

text \<open>An upload by \<open>U1\<close> with an empty \<open>entity_id\<close>, and the same with no \<open>entity_id\<close>.\<close>

theorem empty_field_as_absent_witness:
  "serve env_ok world0 (post (Some ''tok-U1'')
      \<lparr>form_file = Some (FileEntry photo_png), bucket_type = Some ''communities'',
        entity_id = Some [], image_type = Some ''cover''\<rparr>)
   = serve env_ok world0 (post (Some ''tok-U1'')
      \<lparr>form_file = Some (FileEntry photo_png), bucket_type = Some ''communities'',
        entity_id = None, image_type = Some ''cover''\<rparr>)
   \<and> serve env_ok world0 (post (Some ''tok-U1'')
      \<lparr>form_file = Some (FileEntry photo_png), bucket_type = Some ''communities'',
        entity_id = Some [], image_type = Some ''cover''\<rparr>)
   = finish (json_error 400 ''File, bucket_type, entity_id, and image_type are required'')
       world0 [RpcValidateSession ''tok-U1'']"
proof -
  let ?fd = "\<lparr>form_file = Some (FileEntry photo_png), bucket_type = Some ''communities'',
        entity_id = Some [], image_type = Some ''cover''\<rparr>"
  let ?req = "post (Some ''tok-U1'') ?fd"
  have h1: "form ?req = Inr ?fd"
    by (simp add: post_def)
  have h2: "form_file ?fd = Some (TextEntry []) \<or> bucket_type ?fd = Some []
         \<or> entity_id ?fd = Some [] \<or> image_type ?fd = Some []"
    by simp
  have h3: "req_method ?req \<noteq> ''OPTIONS'' \<and> session_token ?req = Some ''tok-U1'' \<and> ''tok-U1'' \<noteq> []
      \<and> validate_session env_ok ''tok-U1'' = \<lparr>data = Some ''U1'', error = None\<rparr> \<and> ''U1'' \<noteq> []"
    by (simp add: post_def env_ok_def)
  have absent: "?req\<lparr>form := Inr (absent_if_empty ?fd)\<rparr>
      = post (Some ''tok-U1'')
          \<lparr>form_file = Some (FileEntry photo_png), bucket_type = Some ''communities'',
            entity_id = None, image_type = Some ''cover''\<rparr>"
    by (simp add: post_def absent_if_empty_def)
  from empty_field_as_absent [OF h1 h2, of env_ok world0 "''tok-U1''" "''U1''"] h3
  show ?thesis unfolding absent by blast
qed

subsection \<open>A missing entity and a foreign entity look alike\<close>

text \<open>
  Claim C2, as the code has it. Take a request that is not a preflight, whose session
  resolves to \<open>u\<close>, whose four fields are present and not empty, whose bucket type is
  recognised and whose file passes the size and type checks. Whether the entity is
  absent from the table or is there with another owner, the answer is the same 403
  (the message names the bucket type only), the calls are the same, and the stores are
  untouched.
\<close>

theorem denied_alike:
  assumes "req_method req \<noteq> ''OPTIONS''"
    and "session_token req = Some t" and "t \<noteq> []"
    and "validate_session e t = \<lparr>data = Some u, error = None\<rparr>" and "u \<noteq> []"
    and "form req = Inr fd"
    and "form_file fd = Some (FileEntry f)"
    and "bucket_type fd = Some b" and "b = ''communities'' \<or> b = ''businesses''"
    and "entity_id fd = Some i" and "i \<noteq> []"
    and "image_type fd = Some k" and "k \<noteq> []"
    and "file_size f \<le> 5242880" and "file_type f \<in> set allowedTypes"
    and "db w1 b i = None"
    and "db w2 b i = Some r"
    and "r (if b = ''communities'' then ''created_by'' else ''owner_id'') \<noteq> Some u"
  shows "serve e w1 req =
           finish (json_error 403
              (if b = ''communities'' then ''Not authorized to upload images for this community''
               else ''Not authorized to upload images for this business''))
             w1 [RpcValidateSession t, SelectOwner b i]
       \<and> resp (serve e w2 req) = resp (serve e w1 req)
       \<and> calls (serve e w2 req) = calls (serve e w1 req)
       \<and> after (serve e w2 req) = w2"
proof -
  have s: "error (validate_session e t) = None" "data (validate_session e t) = Some u"
    using assms(4) by simp_all
  note eq = serve_reached [OF assms(1-3) s assms(5-15)]
  have n1: "not_owner (select_single e w1 b i)
      (if b = ''communities'' then ''created_by'' else ''owner_id'') u"
    using assms(16) by (simp add: not_owner_def select_single_def split: option.splits)
  have n2: "not_owner (select_single e w2 b i)
      (if b = ''communities'' then ''created_by'' else ''owner_id'') u"
    using assms(17,18) by (cases "b = ''communities''")
      (simp_all add: not_owner_def select_single_def split: option.splits)
  show ?thesis
    unfolding eq using n1 n2 by (simp add: Let_def)
qed

text \<open>Community \<open>C2\<close> in the empty store, and in the store where it belongs to \<open>U2\<close>.\<close>

theorem denied_alike_witness:
  "serve env_ok world_empty (post (Some ''tok-U1'')
      (upload_form photo_png ''communities'' ''C2'' ''cover''))
     = finish (json_error 403 ''Not authorized to upload images for this community'')
         world_empty [RpcValidateSession ''tok-U1'', SelectOwner ''communities'' ''C2'']
   \<and> resp (serve env_ok world0 (post (Some ''tok-U1'')
      (upload_form photo_png ''communities'' ''C2'' ''cover'')))
     = resp (serve env_ok world_empty (post (Some ''tok-U1'')
      (upload_form photo_png ''communities'' ''C2'' ''cover'')))"
proof -
  let ?fd = "upload_form photo_png ''communities'' ''C2'' ''cover''"
  let ?req = "post (Some ''tok-U1'') ?fd"
  let ?r = "[''created_by'' \<mapsto> ''U2'', ''cover_image_url'' \<mapsto> ''old'']"
  have "serve env_ok world_empty ?req =
           finish (json_error 403
              (if ''communities'' = ''communities''
               then ''Not authorized to upload images for this community''
               else ''Not authorized to upload images for this business''))
             world_empty [RpcValidateSession ''tok-U1'', SelectOwner ''communities'' ''C2'']
       \<and> resp (serve env_ok world0 ?req) = resp (serve env_ok world_empty ?req)
       \<and> calls (serve env_ok world0 ?req) = calls (serve env_ok world_empty ?req)
       \<and> after (serve env_ok world0 ?req) = world0"
  proof (rule denied_alike [where u = "''U1''" and fd = ?fd and f = photo_png and k = "''cover''"
        and r = ?r])
    show "validate_session env_ok ''tok-U1'' = \<lparr>data = Some ''U1'', error = None\<rparr>"
      by (simp add: env_ok_def)
    show "db world0 ''communities'' ''C2'' = Some ?r"
      by (simp add: world0_def)
    show "file_size photo_png \<le> 5242880" "file_type photo_png \<in> set allowedTypes"
      by (simp_all add: photo_png_def image_file_def allowedTypes_def)
  qed (simp_all add: post_def upload_form_def world_empty_def)
  then show ?thesis by simp
qed

text \<open>
  Claim C2 as stated fails when an earlier check rejects the request: with a session
  that resolves to \<open>U1\<close> and a community that does not exist, a file of 6,000,000
  bytes is answered with the 400 of the size check, not with a 403.
\<close>

theorem oversize_before_ownership_counterexample:
  "validate_session env_ok ''tok-U1'' = \<lparr>data = Some ''U1'', error = None\<rparr>
   \<and> db world0 ''communities'' ''C9'' = None
   \<and> session_token (post (Some ''tok-U1'')
        (upload_form (image_file ''big.png'' 6000000 ''image/png'') ''communities'' ''C9'' ''cover''))
       = Some ''tok-U1''
   \<and> resp (serve env_ok world0 (post (Some ''tok-U1'')
        (upload_form (image_file ''big.png'' 6000000 ''image/png'') ''communities'' ''C9'' ''cover'')))
       = json_error 400 ''File must be less than 5MB''"
  by (simp add: run_defs example_defs)

subsection \<open>Uploading twice\<close>

lemma buckets_row_update [simp]: "buckets (row_update w t i p) = buckets w"
  by (simp add: row_update_def split: option.splits)

lemma db_storage_put [simp]: "db (storage_put w b p obj) = db w"
  by (simp add: storage_put_def)

lemma buckets_storage_put:
  "buckets (storage_put w b p obj) = (buckets w)(b := (buckets w b)(p \<mapsto> obj))"
  by (simp add: storage_put_def)

lemma column_row_update:
  "column (row_update w t i p) t' i' c =
     (if t' = t \<and> i' = i \<and> db w t i \<noteq> None
      then (case map_of p c of Some v \<Rightarrow> Some v | None \<Rightarrow> column w t' i' c)
      else column w t' i' c)"
  by (auto simp: column_def row_update_def map_add_def split: option.splits)

lemma column_storage_put [simp]: "column (storage_put w b p obj) = column w"
  by (simp add: column_def fun_eq_iff)

lemma updateField_not_updated_at [simp]: "updateField k \<noteq> ''updated_at''"
  by (simp add: updateField_def)

text \<open>A run answered with 200 that is not a preflight: everything succeeded.\<close>

lemma serve_success:
  assumes "req_method req \<noteq> ''OPTIONS''" and "status (resp (serve e w req)) = 200"
  obtains t u fd f b i k r where
        "session_token req = Some t" and "t \<noteq> []"
    and "error (validate_session e t) = None"
    and "data (validate_session e t) = Some u" and "u \<noteq> []"
    and "form req = Inr fd"
    and "form_file fd = Some (FileEntry f)"
    and "bucket_type fd = Some b" and "b = ''communities'' \<or> b = ''businesses''"
    and "entity_id fd = Some i" and "i \<noteq> []"
    and "image_type fd = Some k" and "k \<noteq> []"
    and "file_size f \<le> 5242880" and "file_type f \<in> set allowedTypes"
    and "db w b i = Some r"
    and "r (if b = ''communities'' then ''created_by'' else ''owner_id'') = Some u"
    and "serve e w req =
          finish (json_success (getPublicUrl e b (fileName i k (file_name f))))
            (row_update
               (storage_put w b (fileName i k (file_name f))
                  \<lparr>object_bytes = file_content f, contentType = file_type f\<rparr>)
               b i
               [(updateField k, getPublicUrl e b (fileName i k (file_name f))),
                (''updated_at'', now e)])
            [RpcValidateSession t, SelectOwner b i,
             StorageUpload b (fileName i k (file_name f))
               \<lparr>object_bytes = file_content f, contentType = file_type f\<rparr>,
             RowUpdate b i
               [(updateField k, getPublicUrl e b (fileName i k (file_name f))),
                (''updated_at'', now e)]]"
proof (cases rule: serve_cases [of req e w])
  case preflight
  with assms show ?thesis by simp
next
  case (rejected n msg c)
  with assms show ?thesis by auto
next
  case (reached t u fd f b i k)
  note eq = serve_reached [OF reached, of w]
  from assms(2) have own: "\<not> not_owner (select_single e w b i)
          (if b = ''communities'' then ''created_by'' else ''owner_id'') u"
    and up: "upload_error e = None" and upd: "update_error e = None"
    unfolding eq by (auto simp: Let_def split: if_splits option.splits)
  from own obtain r where r: "db w b i = Some r"
    "r (if b = ''communities'' then ''created_by'' else ''owner_id'') = Some u"
    by (auto simp: not_owner_def select_single_def split: option.splits)
  from own up upd have "serve e w req =
          finish (json_success (getPublicUrl e b (fileName i k (file_name f))))
            (row_update
               (storage_put w b (fileName i k (file_name f))
                  \<lparr>object_bytes = file_content f, contentType = file_type f\<rparr>)
               b i
               [(updateField k, getPublicUrl e b (fileName i k (file_name f))),
                (''updated_at'', now e)])
            [RpcValidateSession t, SelectOwner b i,
             StorageUpload b (fileName i k (file_name f))
               \<lparr>object_bytes = file_content f, contentType = file_type f\<rparr>,
             RowUpdate b i
               [(updateField k, getPublicUrl e b (fileName i k (file_name f))),
                (''updated_at'', now e)]]"
    unfolding eq by (simp add: Let_def)
  with reached(2-16) r show ?thesis by (rule that)
qed

text \<open>The owner's valid upload succeeds when no collaborator fails.\<close>

lemma serve_accepts:
  assumes "req_method req \<noteq> ''OPTIONS''"
    and "session_token req = Some t" and "t \<noteq> []"
    and "error (validate_session e t) = None"
    and "data (validate_session e t) = Some u" and "u \<noteq> []"
    and "form req = Inr fd"
    and "form_file fd = Some (FileEntry f)"
    and "bucket_type fd = Some b" and "b = ''communities'' \<or> b = ''businesses''"
    and "entity_id fd = Some i" and "i \<noteq> []"
    and "image_type fd = Some k" and "k \<noteq> []"
    and "file_size f \<le> 5242880" and "file_type f \<in> set allowedTypes"
    and "select_error e = None" and "upload_error e = None" and "update_error e = None"
    and "db w b i = Some r"
    and "r (if b = ''communities'' then ''created_by'' else ''owner_id'') = Some u"
  shows "serve e w req =
          finish (json_success (getPublicUrl e b (fileName i k (file_name f))))
            (row_update
               (storage_put w b (fileName i k (file_name f))
                  \<lparr>object_bytes = file_content f, contentType = file_type f\<rparr>)
               b i
               [(updateField k, getPublicUrl e b (fileName i k (file_name f))),
                (''updated_at'', now e)])
            [RpcValidateSession t, SelectOwner b i,
             StorageUpload b (fileName i k (file_name f))
               \<lparr>object_bytes = file_content f, contentType = file_type f\<rparr>,
             RowUpdate b i
               [(updateField k, getPublicUrl e b (fileName i k (file_name f))),
                (''updated_at'', now e)]]"
proof -
  note eq = serve_reached [OF assms(1-16)]
  have own: "\<not> not_owner (select_single e w b i)
      (if b = ''communities'' then ''created_by'' else ''owner_id'') u"
    using assms(17,20,21) by (simp add: not_owner_def select_single_def)
  show ?thesis
    unfolding eq using own assms(18,19) by (simp add: Let_def)
qed

lemma db_row_update_same:
  "db w t i = Some r \<Longrightarrow> db (row_update w t i p) t i = Some (r ++ map_of p)"
  by (simp add: row_update_def)

text \<open>The row update sets an image column and the time stamp, never the owner column.\<close>

lemma owner_column_kept:
  assumes "b = ''communities'' \<or> b = ''businesses''"
  shows "(r ++ map_of [(updateField k, url), (''updated_at'', ts)])
           (if b = ''communities'' then ''created_by'' else ''owner_id'')
         = r (if b = ''communities'' then ''created_by'' else ''owner_id'')"
  by (simp add: updateField_def map_add_def)

text \<open>
  Claim C6. A request is served with success, and then served again, by collaborators
  that resolve the session as before, name public URLs as before and do not fail. Then
  the second run succeeds too. Both runs write the same object (the bytes and content
  type of the file) to the same bucket and the same path
  \<open>{entity_id}/{image_type}.{extension}\<close>, and both answer with the same URL. After the
  first run the object store is the one before with that object at that path; after
  the second run the object is still at that path and the object store is exactly as
  the first run left it: the second write has replaced the object where it was and
  has added none. The entity's image column holds the URL after the first run and
  after the second, and every column other than \<open>updated_at\<close> is as the first run left
  it.
\<close>

theorem reupload_idempotent:
  assumes "req_method req \<noteq> ''OPTIONS''"
    and "status (resp (serve e1 w req)) = 200"
    and "session_token req = Some t"
    and "validate_session e2 t = validate_session e1 t"
    and "select_error e2 = None" and "upload_error e2 = None" and "update_error e2 = None"
    and "getPublicUrl e2 = getPublicUrl e1"
  shows "\<exists>fd f b i k p obj url.
      form req = Inr fd \<and> form_file fd = Some (FileEntry f) \<and> bucket_type fd = Some b
    \<and> entity_id fd = Some i \<and> image_type fd = Some k
    \<and> p = i @ ''/'' @ k @ ''.'' @ fileExt (file_name f)
    \<and> obj = \<lparr>object_bytes = file_content f, contentType = file_type f\<rparr>
    \<and> url = getPublicUrl e1 b p
    \<and> status (resp (serve e2 (after (serve e1 w req)) req)) = 200
    \<and> filter is_upload (calls (serve e1 w req)) = [StorageUpload b p obj]
    \<and> filter is_upload (calls (serve e2 (after (serve e1 w req)) req)) = [StorageUpload b p obj]
    \<and> resp (serve e1 w req) = json_success url
    \<and> resp (serve e2 (after (serve e1 w req)) req) = json_success url
    \<and> column (after (serve e1 w req)) b i (updateField k) = Some url
    \<and> column (after (serve e2 (after (serve e1 w req)) req)) b i (updateField k) = Some url
    \<and> buckets (after (serve e1 w req)) = (buckets w)(b := (buckets w b)(p \<mapsto> obj))
    \<and> buckets (after (serve e1 w req)) b p = Some obj
    \<and> buckets (after (serve e2 (after (serve e1 w req)) req)) b p = Some obj
    \<and> buckets (after (serve e2 (after (serve e1 w req)) req)) = buckets (after (serve e1 w req))
    \<and> (\<forall>tbl ident col. col \<noteq> ''updated_at'' \<longrightarrow>
          column (after (serve e2 (after (serve e1 w req)) req)) tbl ident col
            = column (after (serve e1 w req)) tbl ident col)"
proof -
  from assms(1,2) obtain t' u fd f b i k r where
        1: "session_token req = Some t'" "t' \<noteq> []"
          "error (validate_session e1 t') = None"
          "data (validate_session e1 t') = Some u" "u \<noteq> []"
          "form req = Inr fd"
          "form_file fd = Some (FileEntry f)"
          "bucket_type fd = Some b" "b = ''communities'' \<or> b = ''businesses''"
          "entity_id fd = Some i" "i \<noteq> []"
          "image_type fd = Some k" "k \<noteq> []"
          "file_size f \<le> 5242880" "file_type f \<in> set allowedTypes"
    and r: "db w b i = Some r"
          "r (if b = ''communities'' then ''created_by'' else ''owner_id'') = Some u"
    and o1: "serve e1 w req =
          finish (json_success (getPublicUrl e1 b (fileName i k (file_name f))))
            (row_update
               (storage_put w b (fileName i k (file_name f))
                  \<lparr>object_bytes = file_content f, contentType = file_type f\<rparr>)
               b i
               [(updateField k, getPublicUrl e1 b (fileName i k (file_name f))),
                (''updated_at'', now e1)])
            [RpcValidateSession t', SelectOwner b i,
             StorageUpload b (fileName i k (file_name f))
               \<lparr>object_bytes = file_content f, contentType = file_type f\<rparr>,
             RowUpdate b i
               [(updateField k, getPublicUrl e1 b (fileName i k (file_name f))),
                (''updated_at'', now e1)]]"
    by (rule serve_success)
  let ?p = "fileName i k (file_name f)"
  let ?obj = "\<lparr>object_bytes = file_content f, contentType = file_type f\<rparr>"
  let ?url = "getPublicUrl e1 b ?p"
  let ?patch1 = "[(updateField k, ?url), (''updated_at'', now e1)]"
  let ?patch2 = "[(updateField k, ?url), (''updated_at'', now e2)]"
  let ?w1 = "row_update (storage_put w b ?p ?obj) b i ?patch1"
  let ?o1 = "serve e1 w req"
  have t: "t' = t"
    using 1(1) assms(3) by simp
  have w1: "after ?o1 = ?w1"
    by (simp add: o1)
  have s2: "error (validate_session e2 t) = None" "data (validate_session e2 t) = Some u"
    using 1(3,4) assms(4) t by simp_all
  from r(1) have "db (storage_put w b ?p ?obj) b i = Some r"
    by simp
  then have row1: "db ?w1 b i = Some (r ++ map_of ?patch1)"
    by (rule db_row_update_same)
  have own1: "(r ++ map_of ?patch1) (if b = ''communities'' then ''created_by'' else ''owner_id'')
      = Some u"
    using owner_column_kept [OF 1(9), of r k ?url "now e1"] r(2) by simp
  have o2: "serve e2 ?w1 req =
      finish (json_success (getPublicUrl e2 b ?p))
        (row_update (storage_put ?w1 b ?p ?obj) b i
           [(updateField k, getPublicUrl e2 b ?p), (''updated_at'', now e2)])
        [RpcValidateSession t, SelectOwner b i, StorageUpload b ?p ?obj,
         RowUpdate b i [(updateField k, getPublicUrl e2 b ?p), (''updated_at'', now e2)]]"
    using assms(1,3) 1(2) [unfolded t] s2 1(5-15) assms(5-7) row1 own1
    by (rule serve_accepts)
  let ?o2 = "serve e2 (after ?o1) req"
  have o2': "?o2 = finish (json_success ?url)
        (row_update (storage_put ?w1 b ?p ?obj) b i ?patch2)
        [RpcValidateSession t, SelectOwner b i, StorageUpload b ?p ?obj, RowUpdate b i ?patch2]"
    unfolding w1 o2 assms(8) ..
  have p: "?p = i @ ''/'' @ k @ ''.'' @ fileExt (file_name f)"
    by (simp add: fileName_def)
  have ok2: "status (resp ?o2) = 200"
    by (simp add: o2')
  have a: "filter is_upload (calls ?o1) = [StorageUpload b ?p ?obj]"
    by (simp add: o1)
  have b: "filter is_upload (calls ?o2) = [StorageUpload b ?p ?obj]"
    by (simp add: o2')
  have c: "resp ?o1 = json_success ?url"
    by (simp add: o1)
  have d: "resp ?o2 = json_success ?url"
    by (simp add: o2')
  have e: "column (after ?o1) b i (updateField k) = Some ?url"
    unfolding w1 by (simp add: column_row_update r(1))
  have w2: "after ?o2 = row_update (storage_put ?w1 b ?p ?obj) b i ?patch2"
    by (simp add: o2')
  from row1 have r1: "db (storage_put ?w1 b ?p ?obj) b i \<noteq> None"
    by simp
  have f: "column (after ?o2) b i (updateField k) = Some ?url"
    unfolding w2 using r1 by (simp add: column_row_update)
  have g1: "buckets (after ?o1) = (buckets w)(b := (buckets w b)(?p \<mapsto> ?obj))"
    unfolding w1 by (simp add: buckets_storage_put)
  then have g2: "buckets (after ?o1) b ?p = Some ?obj"
    by simp
  have g: "buckets (after ?o2) = buckets (after ?o1)"
    unfolding w2 by (simp add: buckets_storage_put w1)
  with g2 have g3: "buckets (after ?o2) b ?p = Some ?obj"
    by simp
  have h: "\<forall>tbl ident col. col \<noteq> ''updated_at'' \<longrightarrow>
          column (after ?o2) tbl ident col = column (after ?o1) tbl ident col"
    unfolding w2 using e [unfolded w1] by (auto simp: column_row_update w1)
  from 1(6,7,8,10,12) p ok2 a b c d e f g1 g2 g3 g h show ?thesis
    unfolding p by blast
qed

text \<open>\<open>U1\<close> uploads the same cover for \<open>C1\<close> twice.\<close>

theorem reupload_idempotent_witness:
  "status (resp (serve env_ok world0
      (post (Some ''tok-U1'') (upload_form photo_png ''communities'' ''C1'' ''cover'')))) = 200
   \<and> status (resp (serve env_ok
          (after (serve env_ok world0
            (post (Some ''tok-U1'') (upload_form photo_png ''communities'' ''C1'' ''cover''))))
          (post (Some ''tok-U1'') (upload_form photo_png ''communities'' ''C1'' ''cover'')))) = 200
   \<and> buckets (after (serve env_ok world0
          (post (Some ''tok-U1'') (upload_form photo_png ''communities'' ''C1'' ''cover''))))
        ''communities'' ''C1/cover.png''
        = Some \<lparr>object_bytes = ''bytes'', contentType = ''image/png''\<rparr>
   \<and> buckets (after (serve env_ok
          (after (serve env_ok world0
            (post (Some ''tok-U1'') (upload_form photo_png ''communities'' ''C1'' ''cover''))))
          (post (Some ''tok-U1'') (upload_form photo_png ''communities'' ''C1'' ''cover''))))
        ''communities'' ''C1/cover.png''
        = Some \<lparr>object_bytes = ''bytes'', contentType = ''image/png''\<rparr>
   \<and> buckets (after (serve env_ok
          (after (serve env_ok world0
            (post (Some ''tok-U1'') (upload_form photo_png ''communities'' ''C1'' ''cover''))))
          (post (Some ''tok-U1'') (upload_form photo_png ''communities'' ''C1'' ''cover''))))
        = buckets (after (serve env_ok world0
          (post (Some ''tok-U1'') (upload_form photo_png ''communities'' ''C1'' ''cover''))))
   \<and> resp (serve env_ok
          (after (serve env_ok world0
            (post (Some ''tok-U1'') (upload_form photo_png ''communities'' ''C1'' ''cover''))))
          (post (Some ''tok-U1'') (upload_form photo_png ''communities'' ''C1'' ''cover'')))
        = resp (serve env_ok world0
          (post (Some ''tok-U1'') (upload_form photo_png ''communities'' ''C1'' ''cover'')))"
proof -
  let ?fd = "upload_form photo_png ''communities'' ''C1'' ''cover''"
  let ?req = "post (Some ''tok-U1'') ?fd"
  let ?r = "[''created_by'' \<mapsto> ''U1'']"
  let ?o1 = "serve env_ok world0 ?req"
  let ?o2 = "serve env_ok (after ?o1) ?req"
  let ?png = "\<lparr>object_bytes = ''bytes'', contentType = ''image/png''\<rparr>"
  have m: "req_method ?req \<noteq> ''OPTIONS''"
    by (simp add: post_def)
  have tok: "session_token ?req = Some ''tok-U1''"
    by (simp add: post_def)
  have frm: "form ?req = Inr ?fd"
    by (simp add: post_def)
  have quiet: "select_error env_ok = None" "upload_error env_ok = None"
    "update_error env_ok = None"
    by (simp_all add: env_ok_def)
  have "serve env_ok world0 ?req =
      finish (json_success
          (getPublicUrl env_ok ''communities'' (fileName ''C1'' ''cover'' (file_name photo_png))))
        (row_update
           (storage_put world0 ''communities'' (fileName ''C1'' ''cover'' (file_name photo_png))
              \<lparr>object_bytes = file_content photo_png, contentType = file_type photo_png\<rparr>)
           ''communities'' ''C1''
           [(updateField ''cover'',
             getPublicUrl env_ok ''communities'' (fileName ''C1'' ''cover'' (file_name photo_png))),
            (''updated_at'', now env_ok)])
        [RpcValidateSession ''tok-U1'', SelectOwner ''communities'' ''C1'',
         StorageUpload ''communities'' (fileName ''C1'' ''cover'' (file_name photo_png))
           \<lparr>object_bytes = file_content photo_png, contentType = file_type photo_png\<rparr>,
         RowUpdate ''communities'' ''C1''
           [(updateField ''cover'',
             getPublicUrl env_ok ''communities'' (fileName ''C1'' ''cover'' (file_name photo_png))),
            (''updated_at'', now env_ok)]]"
  proof (rule serve_accepts [where u = "''U1''" and fd = ?fd and r = ?r])
    show "req_method ?req \<noteq> ''OPTIONS''" by (rule m)
    show "session_token ?req = Some ''tok-U1''" by (rule tok)
    show "form ?req = Inr ?fd" by (rule frm)
    show "error (validate_session env_ok ''tok-U1'') = None"
      "data (validate_session env_ok ''tok-U1'') = Some ''U1''"
      by (simp_all add: env_ok_def)
    show "form_file ?fd = Some (FileEntry photo_png)" "bucket_type ?fd = Some ''communities''"
      "entity_id ?fd = Some ''C1''" "image_type ?fd = Some ''cover''"
      by (simp_all add: upload_form_def)
    show "file_size photo_png \<le> 5242880" "file_type photo_png \<in> set allowedTypes"
      by (simp_all add: photo_png_def image_file_def allowedTypes_def)
    show "select_error env_ok = None" "upload_error env_ok = None" "update_error env_ok = None"
      by (rule quiet)+
    show "db world0 ''communities'' ''C1'' = Some ?r"
      by (simp add: world0_def)
  qed simp_all
  then have ok1: "status (resp ?o1) = 200"
    by (simp only: outcome_finish status_json_success)
  from reupload_idempotent [OF m ok1 tok refl quiet refl] show ?thesis
  proof (elim exE conjE)
    fix fd f b i k p obj url
    assume w: "form ?req = Inr fd" "form_file fd = Some (FileEntry f)"
      "bucket_type fd = Some b" "entity_id fd = Some i" "image_type fd = Some k"
      "p = i @ ''/'' @ k @ ''.'' @ fileExt (file_name f)"
      "obj = \<lparr>object_bytes = file_content f, contentType = file_type f\<rparr>"
      "status (resp ?o2) = 200"
      "resp ?o1 = json_success url" "resp ?o2 = json_success url"
      "buckets (after ?o1) b p = Some obj" "buckets (after ?o2) b p = Some obj"
      "buckets (after ?o2) = buckets (after ?o1)"
    from w(1) frm have fd: "fd = ?fd"
      by simp
    from w(2-5) have vals: "f = photo_png" "b = ''communities''" "i = ''C1''" "k = ''cover''"
      unfolding fd by (simp_all add: upload_form_def)
    have "''C1'' @ ''/'' @ ''cover'' @ ''.'' @ fileExt (file_name photo_png) = ''C1/cover.png''"
      by (simp add: fileExt_def pop_def photo_png_def image_file_def)
    with w(6) have p: "p = ''C1/cover.png''"
      unfolding vals by (rule trans)
    have "\<lparr>object_bytes = file_content photo_png, contentType = file_type photo_png\<rparr> = ?png"
      by (simp add: photo_png_def image_file_def)
    with w(7) have obj: "obj = ?png"
      unfolding vals by (rule trans)
    from w(10) w(9) [symmetric] have same: "resp ?o2 = resp ?o1"
      by (rule trans)
    from w(11) have at1: "buckets (after ?o1) ''communities'' ''C1/cover.png'' = Some ?png"
      unfolding vals p obj .
    from w(12) have at2: "buckets (after ?o2) ''communities'' ''C1/cover.png'' = Some ?png"
      unfolding vals p obj .
    from ok1 w(8) at1 at2 w(13) same show ?thesis
      by (intro conjI)
  qed
qed

subsection \<open>A file name without an extension\<close>

text \<open>
  Claim C1 says that the path of a file whose name has no extension ends in \<open>.jpg\<close>.
  The handler run on the logo \<open>photo\<close> of business \<open>B1\<close>: the name has no dot, the
  upload is accepted, and the object is stored at \<open>B1/logo.photo\<close>
  (\<open>fileExt_no_dot\<close>: this is so for every non-empty name without a dot; the default
  \<open>jpg\<close> is reached only by a name that ends in a dot or is empty).
\<close>

theorem no_extension_path:
  "CHR ''.'' \<notin> set ''photo''
   \<and> serve env_ok world0 (post (Some ''tok-U1'')
        (upload_form (image_file ''photo'' 2097152 ''image/png'') ''businesses'' ''B1'' ''logo''))
     = finish (json_success ''https://store.example/businesses/B1/logo.photo'')
         (row_update
            (storage_put world0 ''businesses'' ''B1/logo.photo''
               \<lparr>object_bytes = ''bytes'', contentType = ''image/png''\<rparr>)
            ''businesses'' ''B1''
            [(''logo_url'', ''https://store.example/businesses/B1/logo.photo''),
             (''updated_at'', ''2024-01-01T00:00:00.000Z'')])
         [RpcValidateSession ''tok-U1'', SelectOwner ''businesses'' ''B1'',
          StorageUpload ''businesses'' ''B1/logo.photo''
            \<lparr>object_bytes = ''bytes'', contentType = ''image/png''\<rparr>,
          RowUpdate ''businesses'' ''B1''
            [(''logo_url'', ''https://store.example/businesses/B1/logo.photo''),
             (''updated_at'', ''2024-01-01T00:00:00.000Z'')]]"
proof -
  let ?f = "image_file ''photo'' 2097152 ''image/png''"
  let ?fd = "upload_form ?f ''businesses'' ''B1'' ''logo''"
  let ?req = "post (Some ''tok-U1'') ?fd"
  have p: "fileName ''B1'' ''logo'' (file_name ?f) = ''B1/logo.photo''"
    by (simp add: fileName_def fileExt_def pop_def image_file_def)
  have own: "\<not> not_owner (select_single env_ok world0 ''businesses'' ''B1'') ''owner_id'' ''U1''"
    by (simp add: not_owner_def select_single_def env_ok_def world0_def)
  have "serve env_ok world0 ?req = 
    (let c2 = [RpcValidateSession ''tok-U1'', SelectOwner ''businesses'' ''B1''];
         path = fileName ''B1'' ''logo'' (file_name ?f);
         obj = \<lparr>object_bytes = file_content ?f, contentType = file_type ?f\<rparr>;
         c3 = c2 @ [StorageUpload ''businesses'' path obj];
         url = getPublicUrl env_ok ''businesses'' path;
         patch = [(updateField ''logo'', url), (''updated_at'', now env_ok)];
         c4 = c3 @ [RowUpdate ''businesses'' ''B1'' patch]
     in
     if not_owner (select_single env_ok world0 ''businesses'' ''B1'')
          (if ''businesses'' = ''communities'' then ''created_by'' else ''owner_id'') ''U1''
     then finish (json_error 403
            (if ''businesses'' = ''communities'' then ''Not authorized to upload images for this community''
             else ''Not authorized to upload images for this business'')) world0 c2
     else (case upload_error env_ok of
             Some msg \<Rightarrow> finish (json_error 500 msg) world0 c3
           | None \<Rightarrow>
               (case update_error env_ok of
                  Some msg \<Rightarrow> finish (json_error 500 msg) (storage_put world0 ''businesses'' path obj) c4
                | None \<Rightarrow> finish (json_success url)
                           (row_update (storage_put world0 ''businesses'' path obj) ''businesses'' ''B1'' patch) c4)))"
    by (rule serve_reached [where u = "''U1''" and fd = ?fd])
      (simp_all add: post_def upload_form_def env_ok_def image_file_def allowedTypes_def)
  then show ?thesis
    unfolding p using own
    by (simp add: Let_def env_ok_def image_file_def updateField_def)
qed

end
